theory Spec2Isabelle
  imports Complex_Main
begin

section \<open>Python values and errors\<close>

text \<open>
  The exceptions the code of \<^verbatim>\<open>models/cgan/model.py\<close> can raise, as values.
  \<open>FormatError\<close> stands for the exceptions of \<^verbatim>\<open>str.format\<close> on a malformed or
  over-long template (ValueError, IndexError or KeyError), \<open>FrameworkError\<close> for an
  exception raised inside Keras or TensorFlow.
\<close>

datatype py_error =
    ZeroDivisionError
  | ValueError
  | IndexError
  | KeyError
  | AssertionError
  | TypeError
  | AttributeError
  | FormatError
  | FrameworkError

text \<open>
  \<^verbatim>\<open>xs[i:j]\<close> on a Python list: a negative bound counts from the end, every bound is
  clamped to the list, and an empty range gives the empty list.
\<close>

definition py_slice :: "'a list \<Rightarrow> int \<Rightarrow> int \<Rightarrow> 'a list" where
  "py_slice xs i j =
     (let n = int (length xs);
          lo = (if i < 0 then max 0 (i + n) else min i n);
          hi = (if j < 0 then max 0 (j + n) else min j n)
      in take (nat (hi - lo)) (drop (nat lo) xs))"

section \<open>The training table\<close>

text \<open>
  A pandas DataFrame as the code uses it: rows in table order, each with its index label
  and its values. \<^verbatim>\<open>len(train)\<close> is the number of rows, \<^verbatim>\<open>train.index\<close> the labels.
\<close>

type_synonym ('k, 'v) frame = "('k \<times> 'v list) list"

definition frame_index :: "('k, 'v) frame \<Rightarrow> 'k list" where
  "frame_index train = map fst train"

text \<open>
  \<^verbatim>\<open>train.loc[labels].values\<close> for a list of labels: for each requested label in order,
  the rows carrying that label; a label that is not in the index raises KeyError.
\<close>

definition loc_values :: "('k, 'v) frame \<Rightarrow> 'k list \<Rightarrow> py_error + 'v list list" where
  "loc_values train labels =
     (if \<exists>l \<in> set labels. l \<notin> set (frame_index train) then Inl KeyError
      else Inr (concat (map (\<lambda>l. map snd (filter (\<lambda>r. fst r = l) train)) labels)))"

text \<open>
  \<^verbatim>\<open>np.reshape(x, (batch_size, -1))\<close> on a two-dimensional array given by its rows: the
  array is read in row-major order and cut into \<open>batch_size\<close> rows of equal width.
  numpy raises ValueError when the known dimension is not positive or does not divide the
  number of elements.
\<close>

definition np_reshape :: "'v list list \<Rightarrow> int \<Rightarrow> py_error + 'v list list" where
  "np_reshape x batch_size =
     (let flat = concat x; b = nat batch_size in
      if batch_size \<le> 0 then Inl ValueError
      else if length flat mod b \<noteq> 0 then Inl ValueError
      else let c = length flat div b
           in Inr (map (\<lambda>i. take c (drop (i * c) flat)) [0..<b]))"

section \<open>numpy's global random generator\<close>

text \<open>
  numpy is not part of the repository: its generator is a parameter. \<open>mt_seed s\<close> is the
  generator state that \<^verbatim>\<open>np.random.seed(s)\<close> installs, \<open>permutation g n\<close> the permutation
  of \<open>0..<n\<close> drawn in state \<open>g\<close> together with the state afterwards.
\<close>

record 'g np_random =
  mt_seed :: "int \<Rightarrow> 'g"
  permutation :: "'g \<Rightarrow> nat \<Rightarrow> nat list \<times> 'g"


text \<open>\<^verbatim>\<open>np.random.seed(s)\<close>: the seed must lie between 0 and 2**32 - 1.\<close>

definition np_seed :: "'g np_random \<Rightarrow> int \<Rightarrow> 'g \<Rightarrow> py_error + 'g" where
  "np_seed R s g = (if 0 \<le> s \<and> s < 2 ^ 32 then Inr (mt_seed R s) else Inl ValueError)"

text \<open>
  \<^verbatim>\<open>np.random.choice(a, replace=False, size=k)\<close> without weights: the first \<open>k\<close> entries
  of a fresh permutation of the positions of \<open>a\<close>, read off \<open>a\<close>.
\<close>

definition np_choice :: "'g np_random \<Rightarrow> 'k list \<Rightarrow> nat \<Rightarrow> 'g \<Rightarrow> 'k list \<times> 'g" where
  "np_choice R a k g =
     (let (p, g') = permutation R g (length a) in (map (\<lambda>i. a ! i) (take k p), g'))"

section \<open>The batch sampler: \<^verbatim>\<open>CGAN.get_data_batch\<close>\<close>

definition start_i :: "int \<Rightarrow> int \<Rightarrow> int \<Rightarrow> int" where
  "start_i batch_size seed n = (batch_size * seed) mod n"

definition shuffle_seed :: "int \<Rightarrow> int \<Rightarrow> int \<Rightarrow> int" where
  "shuffle_seed batch_size seed n = (batch_size * seed) div n"

text \<open>
  Lines 52 to 57 and the slice of line 58: the index labels of the batch. The modulus
  by \<^verbatim>\<open>len(train)\<close> raises ZeroDivisionError on an empty table, before the generator
  is touched.
\<close>

definition batch_labels ::
  "'g np_random \<Rightarrow> ('k, 'v) frame \<Rightarrow> int \<Rightarrow> int \<Rightarrow> 'g \<Rightarrow> (py_error + 'k list) \<times> 'g" where
  "batch_labels R train batch_size seed g =
     (let n = int (length train) in
      if n = 0 then (Inl ZeroDivisionError, g)
      else
        let start = start_i batch_size seed n;
            stop = start + batch_size
        in case np_seed R (shuffle_seed batch_size seed n) g of
             Inl e \<Rightarrow> (Inl e, g)
           | Inr g1 \<Rightarrow>
               let (train_ix, g2) = np_choice R (frame_index train) (length train) g1;
                   train_ix2 = train_ix @ train_ix
               in (Inr (py_slice train_ix2 start stop), g2))"

definition get_data_batch ::
  "'g np_random \<Rightarrow> ('k, 'v) frame \<Rightarrow> int \<Rightarrow> int \<Rightarrow> 'g \<Rightarrow> (py_error + 'v list list) \<times> 'g" where
  "get_data_batch R train batch_size seed g =
     (case batch_labels R train batch_size seed g of
        (Inl e, g') \<Rightarrow> (Inl e, g')
      | (Inr labels, g') \<Rightarrow>
          (case loc_values train labels of
             Inl e \<Rightarrow> (Inl e, g')
           | Inr x \<Rightarrow> (np_reshape x batch_size, g')))"

section \<open>The networks: \<^verbatim>\<open>Generator\<close> and \<^verbatim>\<open>Discriminator\<close>\<close>

text \<open>
  \<^verbatim>\<open>build_model\<close> builds a symbolic Keras graph; the graph is modelled as the term the
  layer calls build. An \<open>Input\<close> carries the name of the Python variable it is bound to.
\<close>

datatype activation = Linear | Relu | Sigmoid

datatype layer =
    Input string "int list" int
  | Embedding int int layer
  | Flatten layer
  | Concat int "layer list"
  | Dense int activation layer
  | Dropout real layer

record network =
  inputs :: "layer list"
  outputs :: layer

record net_class =
  nc_batch_size :: int
  nc_num_classes :: int

text \<open>
  \<^verbatim>\<open>Generator(...)\<close> and \<^verbatim>\<open>Discriminator(...)\<close> on a list of positional arguments:
  \<^verbatim>\<open>__init__(self, batch_size, num_classes)\<close> takes exactly two, and Python raises
  TypeError on any other number.
\<close>

fun Generator_init :: "int list \<Rightarrow> py_error + net_class" where
  "Generator_init [batch_size, num_classes] =
     Inr \<lparr> nc_batch_size = batch_size, nc_num_classes = num_classes \<rparr>"
| "Generator_init _ = Inl TypeError"

fun Discriminator_init :: "int list \<Rightarrow> py_error + net_class" where
  "Discriminator_init [batch_size, num_classes] =
     Inr \<lparr> nc_batch_size = batch_size, nc_num_classes = num_classes \<rparr>"
| "Discriminator_init _ = Inl TypeError"

definition Generator_build_model :: "net_class \<Rightarrow> int list \<Rightarrow> int \<Rightarrow> int \<Rightarrow> network" where
  "Generator_build_model self input_shape dim' data_dim =
     (let noise = Input ''noise'' input_shape (nc_batch_size self);
          label = Input ''label'' [1] (nc_batch_size self);
          label_embedding = Flatten (Embedding (nc_num_classes self) 1 label);
          input = Concat 1 [noise, label];
          x = Dense dim' Relu input;
          x = Dense (dim' * 2) Relu x;
          x = Dense (dim' * 4) Relu x;
          x = Dense data_dim Linear x
      in \<lparr> inputs = [noise, label], outputs = x \<rparr>)"

definition Discriminator_build_model :: "net_class \<Rightarrow> int list \<Rightarrow> int \<Rightarrow> network" where
  "Discriminator_build_model self input_shape dim' =
     (let events = Input ''events'' input_shape (nc_batch_size self);
          label = Input ''label'' [1] (nc_batch_size self);
          label_embedding = Flatten (Embedding (nc_num_classes self) 1 label);
          events_flat = Flatten events;
          input = Concat 1 [events, label];
          x = Dense (dim' * 4) Relu input;
          x = Dropout (1 / 10) x;
          x = Dense (dim' * 2) Relu x;
          x = Dropout (1 / 10) x;
          x = Dense dim' Relu x;
          x = Dense 1 Sigmoid x
      in \<lparr> inputs = [events, label], outputs = x \<rparr>)"

section \<open>Keras, TensorFlow and the file system\<close>

text \<open>
  Keras and TensorFlow are not part of the repository: their operations are parameters,
  over abstract types of generator weights \<open>'gw\<close>, discriminator weights \<open>'dw\<close>, noise
  tensors \<open>'z\<close> and table values \<open>'v\<close>.
  \<^item> \<open>init_generator\<close>, \<open>init_discriminator\<close>: the initial weights of a built graph;
  \<^item> \<open>random_normal k rows cols\<close>: the \<open>k\<close>-th draw of \<^verbatim>\<open>tf.random.normal((rows, cols))\<close>;
  \<^item> \<open>predict\<close>: \<^verbatim>\<open>generator.predict([noise, label])\<close>;
  \<^item> \<open>disc_train_on_batch c t dw x label target\<close>: \<^verbatim>\<open>discriminator.train_on_batch\<close>,
    where \<open>c\<close> is the discriminator's trainable flag when the discriminator was compiled,
    \<open>t\<close> the flag at the call, and \<open>target\<close> is True for the all-ones ground truth;
  \<^item> \<open>combined_train_on_batch c t gw dw noise label\<close>: \<^verbatim>\<open>combined.train_on_batch\<close> with
    the all-ones target, where \<open>c\<close> is the discriminator's trainable flag when the combined
    model was compiled and \<open>t\<close> the flag at the call; it returns the weights of both
    networks, which the combined model shares.
  The losses the training calls return are floating-point numbers that only feed the
  progress line; neither is modelled.
\<close>

record ('gw, 'dw, 'z, 'v) keras =
  init_generator :: "network \<Rightarrow> 'gw"
  init_discriminator :: "network \<Rightarrow> 'dw"
  random_normal :: "nat \<Rightarrow> int \<Rightarrow> int \<Rightarrow> 'z"
  predict :: "'gw \<Rightarrow> 'z \<Rightarrow> 'v list \<Rightarrow> py_error + 'v list list"
  disc_train_on_batch ::
    "bool \<Rightarrow> bool \<Rightarrow> 'dw \<Rightarrow> 'v list list \<Rightarrow> 'v list \<Rightarrow> bool \<Rightarrow> py_error + 'dw"
  combined_train_on_batch ::
    "bool \<Rightarrow> bool \<Rightarrow> 'gw \<Rightarrow> 'dw \<Rightarrow> 'z \<Rightarrow> 'v list \<Rightarrow> py_error + 'gw \<times> 'dw"

text \<open>
  The contract of Keras on frozen layers: a model whose sub-model was not trainable when
  the model was compiled, and is not trainable at the call, does not update that
  sub-model's weights.
\<close>

definition keras_freezes :: "('gw, 'dw, 'z, 'v) keras \<Rightarrow> bool" where
  "keras_freezes K \<longleftrightarrow>
     (\<forall>gw dw z l gw' dw'.
        combined_train_on_batch K False False gw dw z l = Inr (gw', dw') \<longrightarrow> dw' = dw)"

record 'w model =
  graph :: network
  weights :: 'w

text \<open>
  The Keras generator that the constructor builds is one object with two references:
  \<^verbatim>\<open>self.combined\<close> is built on it and keeps it, and \<^verbatim>\<open>self.generator\<close> names it until
  \<^verbatim>\<open>load\<close> rebinds the attribute to a plain \<^verbatim>\<open>Generator\<close> object. \<open>generator_model\<close> is
  the object, \<open>generator\<close> what the attribute refers to.
\<close>

datatype generator_ref = BuiltModel | GeneratorObject net_class

record ('gw, 'dw) cgan =
  batch_size :: int
  noise_dim :: int
  data_dim :: int
  classes :: "int list"
  generator_model :: "'gw model"
  generator :: generator_ref
  discriminator :: "'dw model"
  discriminator_trainable :: bool
  discriminator_compiled_trainable :: bool
  combined_compiled_trainable :: bool

text \<open>
  Whose weights a written file holds, and the world outside the object: the state of
  numpy's generator, the number of TensorFlow draws so far, the directories that exist,
  and the \<^verbatim>\<open>save_weights\<close> calls made so far (file name and content, in order).
\<close>

datatype ('gw, 'dw) saved = GeneratorWeights 'gw | DiscriminatorWeights 'dw

record ('gw, 'dw, 'g) world =
  np_state :: 'g
  tf_draws :: nat
  isdir :: "string \<Rightarrow> bool"
  written :: "(string \<times> ('gw, 'dw) saved) list"

record gan_args =
  ga_batch_size :: int
  ga_lr :: real
  ga_noise_dim :: int
  ga_data_dim :: int
  ga_num_classes :: int
  ga_classes :: "int list"
  ga_layers_dim :: int

record train_arguments =
  cache_prefix :: string
  label_dim :: int
  epochs :: int
  sample_interval :: int
  data_dir :: string

section \<open>\<^verbatim>\<open>CGAN.__init__\<close>\<close>

text \<open>
  The constructor builds both networks, compiles the discriminator while its trainable
  flag is True, sets the flag to False and compiles the combined model. The optimizer
  (floating point) is not modelled.
\<close>

definition CGAN_init :: "('gw, 'dw, 'z, 'v) keras \<Rightarrow> gan_args \<Rightarrow> py_error + ('gw, 'dw) cgan" where
  "CGAN_init K a =
     (case Generator_init [ga_batch_size a, ga_num_classes a] of
        Inl e \<Rightarrow> Inl e
      | Inr gen \<Rightarrow>
     (case Discriminator_init [ga_batch_size a, ga_num_classes a] of
        Inl e \<Rightarrow> Inl e
      | Inr dis \<Rightarrow>
          let g = Generator_build_model gen [ga_noise_dim a] (ga_layers_dim a) (ga_data_dim a);
              d = Discriminator_build_model dis [ga_data_dim a] (ga_layers_dim a);
              trainable1 = True;
              d_compiled = trainable1;
              trainable2 = False;
              c_compiled = trainable2
          in Inr \<lparr> batch_size = ga_batch_size a,
                   noise_dim = ga_noise_dim a,
                   data_dim = ga_data_dim a,
                   classes = ga_classes a,
                   generator_model = \<lparr> graph = g, weights = init_generator K g \<rparr>,
                   generator = BuiltModel,
                   discriminator = \<lparr> graph = d, weights = init_discriminator K d \<rparr>,
                   discriminator_trainable = trainable2,
                   discriminator_compiled_trainable = d_compiled,
                   combined_compiled_trainable = c_compiled \<rparr>))"

section \<open>Strings: \<^verbatim>\<open>str\<close>, \<^verbatim>\<open>str.format\<close>, \<^verbatim>\<open>os.path.join\<close>\<close>

text \<open>\<^verbatim>\<open>str(n)\<close> for a non-negative integer: its decimal digits.\<close>

definition digit_char :: "nat \<Rightarrow> char" where
  "digit_char d = ''0123456789'' ! d"

function str_nat :: "nat \<Rightarrow> string" where
  "str_nat n = (if n < 10 then [digit_char n] else str_nat (n div 10) @ [digit_char (n mod 10)])"
  by pat_completeness auto
termination
  by (relation "measure id") auto

declare str_nat.simps [simp del]

definition prepend :: "string \<Rightarrow> py_error + string \<Rightarrow> py_error + string" where
  "prepend s r = (case r of Inl e \<Rightarrow> Inl e | Inr t \<Rightarrow> Inr (s @ t))"

text \<open>
  \<^verbatim>\<open>template.format(*args)\<close> with string arguments, as far as the checkpoint names need
  it: \<^verbatim>\<open>{{\<close> and \<^verbatim>\<open>}}\<close> are escapes for one brace, \<^verbatim>\<open>{}\<close> takes the next argument
  (IndexError when none is left), a single brace is a ValueError. Any other replacement
  field (numbered, named, with a conversion or a format specification) is an error here:
  the template of \<^verbatim>\<open>train\<close> ends in two \<^verbatim>\<open>{}\<close> fields and is given two arguments, so
  a further field before them either cannot be resolved or leaves a later field without
  an argument.
\<close>

fun py_format :: "string \<Rightarrow> string list \<Rightarrow> py_error + string" where
  "py_format [] args = Inr []"
| "py_format [c] args = (if c = CHR ''{'' \<or> c = CHR ''}'' then Inl FormatError else Inr [c])"
| "py_format (c # d # cs) args =
     (if c = CHR ''{'' then
        (if d = CHR ''{'' then prepend ''{'' (py_format cs args)
         else if d = CHR ''}'' then
           (case args of [] \<Rightarrow> Inl FormatError | a # as \<Rightarrow> prepend a (py_format cs as))
         else Inl FormatError)
      else if c = CHR ''}'' then
        (if d = CHR ''}'' then prepend ''}'' (py_format cs args) else Inl FormatError)
      else prepend [c] (py_format (d # cs) args))"

text \<open>\<^verbatim>\<open>os.path.join(path, name)\<close> on POSIX.\<close>

definition os_path_join :: "string \<Rightarrow> string \<Rightarrow> string" where
  "os_path_join path name =
     (if name \<noteq> [] \<and> hd name = CHR ''/'' then name
      else if path = [] \<or> last path = CHR ''/'' then path @ name
      else path @ ''/'' @ name)"

section \<open>The training loop: \<^verbatim>\<open>CGAN.train\<close>\<close>

text \<open>
  \<^verbatim>\<open>batch_y[:, label_dim]\<close> on the rows of a two-dimensional array. The arrays the
  sampler returns have at least one row and rows of one width.
\<close>

definition np_column :: "'v list list \<Rightarrow> int \<Rightarrow> py_error + 'v list" where
  "np_column rows i =
     (let c = (case rows of [] \<Rightarrow> 0 | r # _ \<Rightarrow> int (length r));
          j = (if i < 0 then i + c else i)
      in if 0 \<le> j \<and> j < c then Inr (map (\<lambda>r. r ! nat j) rows) else Inl IndexError)"

text \<open>Lines 74 and 75: the label column and \<^verbatim>\<open>batch_y[:, :-1]\<close>.\<close>

definition split_batch :: "'v list list \<Rightarrow> int \<Rightarrow> py_error + 'v list \<times> 'v list list" where
  "split_batch batch_y label_dim' =
     (case np_column batch_y label_dim' of
        Inl e \<Rightarrow> Inl e
      | Inr label \<Rightarrow> Inr (label, map (\<lambda>r. py_slice r 0 (- 1)) batch_y))"

text \<open>
  \<^verbatim>\<open>self.generator.predict\<close> and \<^verbatim>\<open>self.generator.save_weights\<close> go through the attribute:
  a plain \<^verbatim>\<open>Generator\<close> object has neither method.
\<close>

definition generator_weights :: "('gw, 'dw) cgan \<Rightarrow> py_error + 'gw" where
  "generator_weights self =
     (case generator self of
        BuiltModel \<Rightarrow> Inr (weights (generator_model self))
      | GeneratorObject _ \<Rightarrow> Inl AttributeError)"

text \<open>
  Lines 69 to 84. The sampler is called without its third argument, so \<open>seed\<close> takes its
  default 0. An exception leaves the state as it is at that point. The result is the
  label vector, which the generator update uses again.
\<close>

definition discriminator_phase ::
  "('gw, 'dw, 'z, 'v) keras \<Rightarrow> 'g np_random \<Rightarrow> ('k, 'v) frame \<Rightarrow> train_arguments \<Rightarrow>
   ('gw, 'dw) cgan \<Rightarrow> ('gw, 'dw, 'g) world \<Rightarrow>
   (py_error + 'v list) \<times> ('gw, 'dw) cgan \<times> ('gw, 'dw, 'g) world" where
  "discriminator_phase K R data' args self w =
     (let self1 = self\<lparr>discriminator_trainable := True\<rparr>;
          (batch, g') = get_data_batch R data' (batch_size self1) 0 (np_state w);
          w1 = w\<lparr>np_state := g'\<rparr>
      in case batch of
           Inl e \<Rightarrow> (Inl e, self1, w1)
         | Inr batch_y \<Rightarrow>
      (case split_batch batch_y (label_dim args) of
           Inl e \<Rightarrow> (Inl e, self1, w1)
         | Inr (label, batch_x) \<Rightarrow>
      (let noise = random_normal K (tf_draws w1) (batch_size self1) (noise_dim self1);
           w2 = w1\<lparr>tf_draws := Suc (tf_draws w1)\<rparr>
       in case generator_weights self1 of
            Inl e \<Rightarrow> (Inl e, self1, w2)
          | Inr gw \<Rightarrow>
       (case predict K gw noise label of
            Inl e \<Rightarrow> (Inl e, self1, w2)
          | Inr gen_records \<Rightarrow>
       (case disc_train_on_batch K (discriminator_compiled_trainable self1)
               (discriminator_trainable self1) (weights (discriminator self1))
               batch_x label True of
            Inl e \<Rightarrow> (Inl e, self1, w2)
          | Inr dw1 \<Rightarrow>
       (let self2 = self1\<lparr>discriminator := (discriminator self1)\<lparr>weights := dw1\<rparr>\<rparr>
        in case disc_train_on_batch K (discriminator_compiled_trainable self2)
                  (discriminator_trainable self2) dw1 gen_records label False of
             Inl e \<Rightarrow> (Inl e, self2, w2)
           | Inr dw2 \<Rightarrow>
               (Inr label, self2\<lparr>discriminator := (discriminator self2)\<lparr>weights := dw2\<rparr>\<rparr>, w2)))))))"

text \<open>Lines 89 to 92: the update of the generator through the combined model.\<close>

definition generator_phase ::
  "('gw, 'dw, 'z, 'v) keras \<Rightarrow> 'v list \<Rightarrow> ('gw, 'dw) cgan \<Rightarrow> ('gw, 'dw, 'g) world \<Rightarrow>
   py_error option \<times> ('gw, 'dw) cgan \<times> ('gw, 'dw, 'g) world" where
  "generator_phase K label self w =
     (let self1 = self\<lparr>discriminator_trainable := False\<rparr>;
          noise = random_normal K (tf_draws w) (batch_size self1) (noise_dim self1);
          w1 = w\<lparr>tf_draws := Suc (tf_draws w)\<rparr>
      in case combined_train_on_batch K (combined_compiled_trainable self1)
                (discriminator_trainable self1) (weights (generator_model self1))
                (weights (discriminator self1)) noise label of
           Inl e \<Rightarrow> (Some e, self1, w1)
         | Inr (gw, dw) \<Rightarrow>
             (None,
              self1\<lparr>generator_model := (generator_model self1)\<lparr>weights := gw\<rparr>,
                    discriminator := (discriminator self1)\<lparr>weights := dw\<rparr>\<rparr>,
              w1))"

text \<open>
  Lines 98 to 109: the checkpoint. \<^verbatim>\<open>epoch % sample_interval\<close> raises
  ZeroDivisionError when the interval is 0. In each \<^verbatim>\<open>save_weights\<close> call Python looks
  the method up before it formats the file name.
\<close>

definition model_checkpoint_base_name :: "train_arguments \<Rightarrow> string" where
  "model_checkpoint_base_name args =
     data_dir args @ cache_prefix args @ ''_{}_model_weights_step_{}.h5''"

definition checkpoint_phase ::
  "train_arguments \<Rightarrow> nat \<Rightarrow> ('gw, 'dw) cgan \<Rightarrow> ('gw, 'dw, 'g) world \<Rightarrow>
   py_error option \<times> ('gw, 'dw, 'g) world" where
  "checkpoint_phase args epoch self w =
     (if sample_interval args = 0 then (Some ZeroDivisionError, w)
      else if int epoch mod sample_interval args = 0 then
        (case generator_weights self of
           Inl e \<Rightarrow> (Some e, w)
         | Inr gw \<Rightarrow>
        (case py_format (model_checkpoint_base_name args) [''generator'', str_nat epoch] of
           Inl e \<Rightarrow> (Some e, w)
         | Inr gen_name \<Rightarrow>
        (let w1 = w\<lparr>written := written w @ [(gen_name, GeneratorWeights gw)]\<rparr>
         in case py_format (model_checkpoint_base_name args)
                   [''discriminator'', str_nat epoch] of
              Inl e \<Rightarrow> (Some e, w1)
            | Inr dis_name \<Rightarrow>
                (None,
                 w1\<lparr>written := written w1 @
                      [(dis_name, DiscriminatorWeights (weights (discriminator self)))],
                    tf_draws := Suc (tf_draws w1)\<rparr>))))
      else (None, w))"

definition train_step ::
  "('gw, 'dw, 'z, 'v) keras \<Rightarrow> 'g np_random \<Rightarrow> ('k, 'v) frame \<Rightarrow> train_arguments \<Rightarrow> nat \<Rightarrow>
   ('gw, 'dw) cgan \<Rightarrow> ('gw, 'dw, 'g) world \<Rightarrow>
   py_error option \<times> ('gw, 'dw) cgan \<times> ('gw, 'dw, 'g) world" where
  "train_step K R data' args epoch self w =
     (case discriminator_phase K R data' args self w of
        (Inl e, self1, w1) \<Rightarrow> (Some e, self1, w1)
      | (Inr label, self1, w1) \<Rightarrow>
     (case generator_phase K label self1 w1 of
        (Some e, self2, w2) \<Rightarrow> (Some e, self2, w2)
      | (None, self2, w2) \<Rightarrow>
          (let (r, w3) = checkpoint_phase args epoch self2 w2 in (r, self2, w3))))"

text \<open>\<^verbatim>\<open>for epoch in range(epochs)\<close>: the steps in order, stopping at the first exception.\<close>

fun train_loop ::
  "('gw, 'dw, 'z, 'v) keras \<Rightarrow> 'g np_random \<Rightarrow> ('k, 'v) frame \<Rightarrow> train_arguments \<Rightarrow> nat list \<Rightarrow>
   ('gw, 'dw) cgan \<Rightarrow> ('gw, 'dw, 'g) world \<Rightarrow>
   py_error option \<times> ('gw, 'dw) cgan \<times> ('gw, 'dw, 'g) world" where
  "train_loop K R data' args [] self w = (None, self, w)"
| "train_loop K R data' args (epoch # rest) self w =
     (case train_step K R data' args epoch self w of
        (Some e, self1, w1) \<Rightarrow> (Some e, self1, w1)
      | (None, self1, w1) \<Rightarrow> train_loop K R data' args rest self1 w1)"

definition train ::
  "('gw, 'dw, 'z, 'v) keras \<Rightarrow> 'g np_random \<Rightarrow> ('k, 'v) frame \<Rightarrow> train_arguments \<Rightarrow>
   ('gw, 'dw) cgan \<Rightarrow> ('gw, 'dw, 'g) world \<Rightarrow>
   py_error option \<times> ('gw, 'dw) cgan \<times> ('gw, 'dw, 'g) world" where
  "train K R data' args self w = train_loop K R data' args [0..<nat (epochs args)] self w"

section \<open>Persistence: \<^verbatim>\<open>CGAN.save\<close> and \<^verbatim>\<open>CGAN.load\<close>\<close>

definition save ::
  "('gw, 'dw) cgan \<Rightarrow> ('gw, 'dw, 'g) world \<Rightarrow> string \<Rightarrow> string \<Rightarrow>
   py_error option \<times> ('gw, 'dw) cgan \<times> ('gw, 'dw, 'g) world" where
  "save self w path name =
     (if \<not> isdir w path then (Some AssertionError, self, w)
      else
        let model_path = os_path_join path name
        in case generator_weights self of
             Inl e \<Rightarrow> (Some e, self, w)
           | Inr gw \<Rightarrow>
               (None, self, w\<lparr>written := written w @ [(model_path, GeneratorWeights gw)]\<rparr>))"

text \<open>
  \<^verbatim>\<open>load\<close> calls \<^verbatim>\<open>Generator(self.batch_size)\<close>, with one positional argument, and then
  \<^verbatim>\<open>load_weights\<close> on the object, a method that the class \<^verbatim>\<open>Generator\<close> does not define.
  The value returned is the result of that call.
\<close>

datatype py_value = NoneValue | GeneratorValue net_class

definition Generator_load_weights :: "net_class \<Rightarrow> string \<Rightarrow> py_error + py_value" where
  "Generator_load_weights gen path = Inl AttributeError"

definition load ::
  "('gw, 'dw) cgan \<Rightarrow> ('gw, 'dw, 'g) world \<Rightarrow> string \<Rightarrow>
   (py_error + py_value) \<times> ('gw, 'dw) cgan" where
  "load self w path =
     (if \<not> isdir w path then (Inl AssertionError, self)
      else case Generator_init [batch_size self] of
             Inl e \<Rightarrow> (Inl e, self)
           | Inr gen \<Rightarrow>
               (let self1 = self\<lparr>generator := GeneratorObject gen\<rparr>
                in (Generator_load_weights gen path, self1)))"

section \<open>The part of the object that no method changes\<close>

text \<open>
  What no method changes: the reference \<open>self.generator\<close> and the trainable flags taken
  at the two \<open>compile\<close> calls. They are as the constructor leaves them in every state
  that calls of \<open>train\<close>, \<open>save\<close> and \<open>load\<close> reach.
\<close>

definition fixed_part :: "('gw, 'dw) cgan \<Rightarrow> generator_ref \<times> bool \<times> bool" where
  "fixed_part self =
     (generator self, discriminator_compiled_trainable self, combined_compiled_trainable self)"

section \<open>Concrete instances for evaluation\<close>

text \<open>
  A concrete generator for evaluating the sampler: the state counts the draws since the
  seed and the permutation rotates \<open>0..<n\<close> by the state.
\<close>

definition rot_rng :: "nat np_random" where
  "rot_rng = \<lparr> mt_seed = (\<lambda>s. nat s), permutation = (\<lambda>g n. (rotate g [0..<n], Suc g)) \<rparr>"

text \<open>
  A recording framework: the discriminator's weights are the list of real feature batches
  it was trained on, the generator's weights count its updates, noise is the number of the
  draw, a generated record repeats its label. The combined model resets the record of the
  discriminator unless the discriminator is frozen.
\<close>

definition rec_keras :: "(nat, int list list list, nat, int) keras" where
  "rec_keras =
     \<lparr> init_generator = (\<lambda>_. 0),
       init_discriminator = (\<lambda>_. []),
       random_normal = (\<lambda>k _ _. k),
       predict = (\<lambda>gw z label. Inr (map (\<lambda>x. [x]) label)),
       disc_train_on_batch = (\<lambda>c t dw x label target. Inr (if target then dw @ [x] else dw)),
       combined_train_on_batch =
         (\<lambda>c t gw dw z label. Inr (Suc gw, if c \<or> t then [] else dw)) \<rparr>"

text \<open>Tables of two and three rows; the last column is the label.\<close>

definition table2 :: "(nat, int) frame" where
  "table2 = [(0, [10, 0]), (1, [20, 1])]"


definition args1 :: gan_args where
  "args1 = \<lparr> ga_batch_size = 1, ga_lr = 1 / 1000, ga_noise_dim = 4, ga_data_dim = 1,
             ga_num_classes = 2, ga_classes = [0, 1], ga_layers_dim = 8 \<rparr>"

definition cgan1 :: "(nat, int list list list) cgan" where
  "cgan1 =
     \<lparr> batch_size = 1, noise_dim = 4, data_dim = 1, classes = [0, 1],
       generator_model =
         \<lparr> graph = Generator_build_model \<lparr>nc_batch_size = 1, nc_num_classes = 2\<rparr> [4] 8 1,
           weights = 0 \<rparr>,
       generator = BuiltModel,
       discriminator =
         \<lparr> graph = Discriminator_build_model \<lparr>nc_batch_size = 1, nc_num_classes = 2\<rparr> [1] 8,
           weights = [] \<rparr>,
       discriminator_trainable = False,
       discriminator_compiled_trainable = True,
       combined_compiled_trainable = False \<rparr>"

definition world1 :: "(nat, int list list list, nat) world" where
  "world1 = \<lparr> np_state = 7, tf_draws = 0, isdir = (\<lambda>p. p = ''out''), written = [] \<rparr>"

definition targs1 :: train_arguments where
  "targs1 = \<lparr> cache_prefix = ''cgan'', label_dim = 1, epochs = 2, sample_interval = 1,
              data_dir = ''out/'' \<rparr>"

text \<open>The object after a discriminator update: a recorded batch, the flag still True.\<close>

definition cgan2 :: "(nat, int list list list) cgan" where
  "cgan2 = cgan1\<lparr>discriminator := (discriminator cgan1)\<lparr>weights := [[[10]]]\<rparr>,
                 discriminator_trainable := True\<rparr>"

section \<open>Properties of the lists, strings and arrays\<close>




















lemma rec_keras_freezes: "keras_freezes rec_keras"
  by (simp add: keras_freezes_def rec_keras_def)

lemma CGAN_init_args1: "CGAN_init rec_keras args1 = Inr cgan1"
  by (simp add: CGAN_init_def args1_def cgan1_def rec_keras_def Let_def)

lemma CGAN_init_frozen:
  assumes "CGAN_init K a = Inr self"
  shows "\<not> combined_compiled_trainable self \<and> discriminator_compiled_trainable self \<and>
         generator self = BuiltModel"
  using assms by (auto simp: CGAN_init_def Let_def)

lemma discriminator_phase_fixed:
  "fixed_part (fst (snd (discriminator_phase K R tb args self w))) = fixed_part self"
  by (simp add: discriminator_phase_def fixed_part_def Let_def split: prod.splits sum.splits)

lemma generator_phase_fixed:
  "fixed_part (fst (snd (generator_phase K label self w))) = fixed_part self"
  by (simp add: generator_phase_def fixed_part_def Let_def split: prod.splits sum.splits)

lemma train_step_fixed:
  "fixed_part (fst (snd (train_step K R tb args epoch self w))) = fixed_part self"
proof -
  obtain r1 self1 w1 where d: "discriminator_phase K R tb args self w = (r1, self1, w1)"
    by (cases "discriminator_phase K R tb args self w")
  have f1: "fixed_part self1 = fixed_part self"
    using discriminator_phase_fixed[of K R tb args self w] d by simp
  show ?thesis
  proof (cases r1)
    case (Inl e)
    then show ?thesis using d f1 by (simp add: train_step_def)
  next
    case (Inr label)
    obtain r2 self2 w2 where g: "generator_phase K label self1 w1 = (r2, self2, w2)"
      by (cases "generator_phase K label self1 w1")
    have f2: "fixed_part self2 = fixed_part self1"
      using generator_phase_fixed[of K label self1 w1] g by simp
    show ?thesis
      using d Inr g f1 f2 by (cases r2) (simp_all add: train_step_def split: prod.splits)
  qed
qed

lemma train_loop_fixed:
  "fixed_part (fst (snd (train_loop K R tb args es self w))) = fixed_part self"
proof (induction es arbitrary: self w)
  case Nil
  show ?case by simp
next
  case (Cons e es)
  obtain r self1 w1 where t: "train_step K R tb args e self w = (r, self1, w1)"
    by (cases "train_step K R tb args e self w")
  have f: "fixed_part self1 = fixed_part self"
    using train_step_fixed[of K R tb args e self w] t by simp
  show ?case using t f Cons.IH[of self1 w1] by (cases r) simp_all
qed

lemma save_load_fixed:
  "fst (snd (save self w path name)) = self" "snd (load self w path) = self"
  by (simp_all add: save_def load_def Let_def split: sum.splits)

section \<open>The batch sampler\<close>




text \<open>
  C5: the sampler is deterministic. The batch depends on the table, the batch size and
  the step only: whatever state numpy's generator is in at the call, two calls with the
  same arguments return the same batch (or raise the same exception).
\<close>

theorem get_data_batch_deterministic:
  "fst (get_data_batch R tb B step g1) = fst (get_data_batch R tb B step g2)"
  by (simp add: get_data_batch_def batch_labels_def np_seed_def Let_def
           split: prod.splits sum.splits)




section \<open>The generator network\<close>

text \<open>
  C2 fails on the code: \<open>Generator.build_model\<close> computes the flattened embedding of the
  label and does not use it. The tensor fed to the first dense layer is the concatenation
  of the noise input and the raw label input; the three ReLU layers of widths \<open>dim\<close>,
  \<open>2 dim\<close>, \<open>4 dim\<close> and the linear layer of \<open>data_dim\<close> outputs follow.
\<close>

theorem Generator_concatenates_raw_label:
  "outputs (Generator_build_model self input_shape dim' data_dim') =
     Dense data_dim' Linear (Dense (dim' * 4) Relu (Dense (dim' * 2) Relu (Dense dim' Relu
       (Concat 1 [Input ''noise'' input_shape (nc_batch_size self),
                  Input ''label'' [1] (nc_batch_size self)]))))"
  by (simp add: Generator_build_model_def Let_def)

section \<open>The training loop\<close>

text \<open>
  C1 fails on the code: \<open>train\<close> calls the sampler without a step, so every step samples
  with \<open>seed = 0\<close> and gets the same batch. On a table of \<open>N = 2\<close> rows with batch size
  \<open>B = 1\<close>, the \<open>B * N = 2\<close> steps of the loop complete, and the discriminator has been
  trained on the features of row 0 twice and never on row 1.
\<close>

theorem train_samples_one_batch:
  "int (length table2) = 2 \<and> batch_size cgan1 = 1 \<and> epochs targs1 = 1 * 2 \<and>
   fst (train rec_keras rot_rng table2 targs1 cgan1 world1) = None \<and>
   weights (discriminator (fst (snd (train rec_keras rot_rng table2 targs1 cgan1 world1)))) =
     [[[10]], [[10]]]"
  by (simp add: train_def train_step_def discriminator_phase_def generator_phase_def
        checkpoint_phase_def get_data_batch_def batch_labels_def np_seed_def np_choice_def
        rot_rng_def rec_keras_def table2_def targs1_def cgan1_def world1_def frame_index_def
        start_i_def shuffle_seed_def py_slice_def loc_values_def np_reshape_def split_batch_def
        np_column_def generator_weights_def model_checkpoint_base_name_def prepend_def
        str_nat.simps digit_char_def upt_conv_Cons Let_def)



text \<open>
  C7: the generator update leaves the discriminator as it is. The constructor compiles
  the combined model while the discriminator's trainable flag is False, and the step sets
  the flag to False before it trains the combined model; under the contract of Keras on
  frozen layers the discriminator's weights after the update are those before it, whether
  the update succeeds or raises.
\<close>

theorem generator_phase_keeps_discriminator:
  assumes "keras_freezes K" "\<not> combined_compiled_trainable self"
  shows "discriminator (fst (snd (generator_phase K label self w))) = discriminator self \<and>
         \<not> discriminator_trainable (fst (snd (generator_phase K label self w)))"
proof (cases "combined_train_on_batch K False False (weights (generator_model self))
                (weights (discriminator self))
                (random_normal K (tf_draws w) (batch_size self) (noise_dim self)) label")
  case (Inl e)
  then show ?thesis using assms(2) by (simp add: generator_phase_def Let_def)
next
  case (Inr p)
  obtain gw dw where p: "p = (gw, dw)" by (cases p)
  have "dw = weights (discriminator self)"
    using assms(1) Inr p unfolding keras_freezes_def by blast
  then show ?thesis using assms(2) Inr p by (simp add: generator_phase_def Let_def)
qed

theorem generator_phase_keeps_discriminator_witness:
  "keras_freezes rec_keras \<and> \<not> combined_compiled_trainable cgan2 \<and>
   weights (discriminator cgan2) = [[[10]]] \<and>
   weights (discriminator (fst (snd (generator_phase rec_keras [0] cgan2 world1)))) = [[[10]]] \<and>
   weights (generator_model (fst (snd (generator_phase rec_keras [0] cgan2 world1)))) = 1 \<and>
   \<not> discriminator_trainable (fst (snd (generator_phase rec_keras [0] cgan2 world1)))"
proof -
  have h: "\<not> combined_compiled_trainable cgan2" by (simp add: cgan2_def cgan1_def)
  have g: "weights (generator_model (fst (snd (generator_phase rec_keras [0] cgan2 world1)))) = 1"
    by (simp add: generator_phase_def rec_keras_def cgan2_def cgan1_def Let_def)
  have d: "weights (discriminator cgan2) = [[[10]]]" by (simp add: cgan2_def)
  show ?thesis
    using generator_phase_keeps_discriminator [OF rec_keras_freezes h, of "[0]" world1] h g d
      rec_keras_freezes
    by simp
qed




section \<open>Persistence\<close>



text \<open>
  C4 fails on the code: on an existing directory \<open>load\<close> raises TypeError, because it
  calls \<open>Generator\<close> with one argument where the constructor takes two; it never returns
  a generator. The object is unchanged.
\<close>

theorem load_raises:
  "load self w path = (Inl (if isdir w path then TypeError else AssertionError), self)"
  by (simp add: load_def)

end
